theory Spec2Isabelle
  imports Main
begin

section \<open>The view counter of src/index.ts\<close>

text \<open>
  The repository is one Express route, \<^verbatim>\<open>GET /view/:repo\<close>, over one Mongoose model,
  \<^verbatim>\<open>ViewCount\<close>. The theory embeds the route handler (lines 57 to 113) as a function
  of the collection, the request's inputs, the two clock readings the handler takes and the
  store calls that fail, and returns the collection, the reply the client received and the
  exception that left the handler, if any. The spec's \<^verbatim>\<open>recordView(key, clientId, now)\<close> is
  this handler; its reported count is the message of the reply.

  Modelling decisions:
  \<^item> a \<^verbatim>\<open>Date\<close> is its time value, an \<open>int\<close> of milliseconds; \<^verbatim>\<open>a > b\<close> on two dates
    compares these;
  \<^item> \<^verbatim>\<open>views\<close> is a \<^verbatim>\<open>Number\<close> that starts at 0 and only ever sees \<^verbatim>\<open>++\<close>; it is a
    \<open>nat\<close> here (the arithmetic of a Number is exact on such values below \<open>2^53\<close>);
  \<^item> the collection is the list of its documents; a document's identity (its \<^verbatim>\<open>_id\<close>)
    is its position in the list, \<^verbatim>\<open>findOne\<close> returns the first match, the \<^verbatim>\<open>save()\<close> of
    a new document appends it and the \<^verbatim>\<open>save()\<close> of a loaded one replaces it in place;
  \<^item> each of the three store calls either succeeds or rejects (a lost connection, a
    document that fails the schema's validation); which ones reject is an input of the
    handler;
  \<^item> the response object takes one reply: \<^verbatim>\<open>res.send\<close> on a response that was sent
    already throws and leaves the first reply in place.
\<close>

subsection \<open>Documents (lines 12 to 38)\<close>

record IPLog =
  ip :: string
  timestamp :: int

record ViewCountDocument =
  repo :: string
  views :: nat
  ipLogs :: "IPLog list"

type_synonym Collection = "ViewCountDocument list"

text \<open>\<^verbatim>\<open>ViewCount.findOne({ repo })\<close>: the first document of the collection whose
  \<^verbatim>\<open>repo\<close> is the one asked for, with its position, or nothing.\<close>

fun findOne :: "string \<Rightarrow> Collection \<Rightarrow> (nat \<times> ViewCountDocument) option" where
  "findOne r [] = None"
| "findOne r (d # ds) =
     (if repo d = r then Some (0, d)
      else (case findOne r ds of None \<Rightarrow> None | Some (i, x) \<Rightarrow> Some (Suc i, x)))"

subsection \<open>The badge (lines 80 to 85 and 101 to 106)\<close>

definition digit_char :: "nat \<Rightarrow> char" where
  "digit_char d = ''0123456789'' ! d"

text \<open>\<^verbatim>\<open>String(n)\<close> on a non-negative integer: its decimal digits, most significant first.\<close>

fun String_num :: "nat \<Rightarrow> string" where
  "String_num n =
     (if n < 10 then [digit_char n] else String_num (n div 10) @ [digit_char (n mod 10)])"

declare String_num.simps [simp del]

record Badge =
  schemaVersion :: nat
  label :: string
  message :: string
  color :: string

definition response :: "nat \<Rightarrow> Badge" where
  "response v =
     \<lparr>schemaVersion = 1, label = ''Profile View'', message = String_num v, color = ''blue''\<rparr>"

text \<open>What \<^verbatim>\<open>res.send\<close> is given: the JSON text of a badge, or a plain text.\<close>

datatype Body = JSON_stringify Badge | Text string

record Reply =
  status :: nat
  body :: Body

text \<open>The spec's reading of "count as decimal string": the number a digit string denotes.\<close>

definition digit_val :: "char \<Rightarrow> nat" where
  "digit_val c = of_char c - 48"

definition decimal_value :: "string \<Rightarrow> nat" where
  "decimal_value s = foldl (\<lambda>a c. 10 * a + digit_val c) 0 s"

subsection \<open>Failures and the state a request works on\<close>

datatype StoreOp = FindOne | SaveNew | SaveChanges

datatype error = StoreError StoreOp | HeadersSent

record World =
  coll :: Collection
  sent :: "Reply option"

text \<open>\<^verbatim>\<open>res.status(s).send(b)\<close>.\<close>

definition res_send :: "Reply \<Rightarrow> World \<Rightarrow> error option \<times> World" where
  "res_send r w =
     (case sent w of
        None \<Rightarrow> (None, w\<lparr>sent := Some r\<rparr>)
      | Some _ \<Rightarrow> (Some HeadersSent, w))"

subsection \<open>The handler (lines 57 to 113)\<close>

text \<open>Lines 64 to 70: find the document, or make it with no views and save it.\<close>

definition find_or_create ::
  "(StoreOp \<Rightarrow> bool) \<Rightarrow> string \<Rightarrow> World \<Rightarrow> (error + nat \<times> ViewCountDocument) \<times> World" where
  "find_or_create fails r w =
     (if fails FindOne then (Inl (StoreError FindOne), w)
      else (case findOne r (coll w) of
              Some found \<Rightarrow> (Inr found, w)
            | None \<Rightarrow>
                (let countDoc = \<lparr>repo = r, views = 0, ipLogs = []\<rparr>
                 in if fails SaveNew then (Inl (StoreError SaveNew), w)
                    else (Inr (length (coll w), countDoc), w\<lparr>coll := coll w @ [countDoc]\<rparr>))))"

text \<open>Lines 74 to 76: the first log of this address that is younger than an hour.\<close>

definition recentEntry :: "string \<Rightarrow> int \<Rightarrow> ViewCountDocument \<Rightarrow> IPLog option" where
  "recentEntry userIp oneHourAgo countDoc =
     find (\<lambda>log. ip log = userIp \<and> timestamp log > oneHourAgo) (ipLogs countDoc)"

text \<open>Lines 91 to 97: count the view, log the address, drop the old logs.\<close>

definition bump :: "string \<Rightarrow> int \<Rightarrow> int \<Rightarrow> ViewCountDocument \<Rightarrow> ViewCountDocument" where
  "bump userIp oneHourAgo now2 countDoc =
     (let d1 = countDoc\<lparr>views := views countDoc + 1\<rparr>;
          d2 = d1\<lparr>ipLogs := ipLogs d1 @ [\<lparr>ip = userIp, timestamp = now2\<rparr>]\<rparr>
      in d2\<lparr>ipLogs := filter (\<lambda>log. timestamp log > oneHourAgo) (ipLogs d2)\<rparr>)"

text \<open>The body of \<^verbatim>\<open>try\<close> (lines 63 to 108). \<open>now\<close> is what \<^verbatim>\<open>Date.now()\<close> returns on
  line 73 and \<open>now2\<close> what \<^verbatim>\<open>new Date()\<close> holds on line 92. There is no \<^verbatim>\<open>return\<close> after the
  reply of line 87, so lines 91 to 108 run on both branches.\<close>

definition try_block ::
  "(StoreOp \<Rightarrow> bool) \<Rightarrow> string \<Rightarrow> string \<Rightarrow> int \<Rightarrow> int \<Rightarrow> World \<Rightarrow> error option \<times> World" where
  "try_block fails r userIp now now2 w0 =
     (case find_or_create fails r w0 of
        (Inl e, w1) \<Rightarrow> (Some e, w1)
      | (Inr (i, countDoc), w1) \<Rightarrow>
          (let oneHourAgo = now - 60 * 60 * 1000
           in (case (if recentEntry userIp oneHourAgo countDoc \<noteq> None
                     then res_send \<lparr>status = 200, body = JSON_stringify (response (views countDoc))\<rparr> w1
                     else (None, w1)) of
                 (Some e, w2) \<Rightarrow> (Some e, w2)
               | (None, w2) \<Rightarrow>
                   (let countDoc' = bump userIp oneHourAgo now2 countDoc
                    in if fails SaveChanges then (Some (StoreError SaveChanges), w2)
                       else res_send
                              \<lparr>status = 200, body = JSON_stringify (response (views countDoc'))\<rparr>
                              (w2\<lparr>coll := (coll w2)[i := countDoc']\<rparr>)))))"

text \<open>The handler: the \<^verbatim>\<open>try\<close> body on a fresh response, and the \<^verbatim>\<open>catch\<close> of lines 109 to
  112, which answers 500 (its \<^verbatim>\<open>console.error\<close> only writes to the log and is left out).
  The first component of the result is the exception that leaves the handler (one thrown
  inside \<^verbatim>\<open>catch\<close>).\<close>

definition handler ::
  "(StoreOp \<Rightarrow> bool) \<Rightarrow> string \<Rightarrow> string \<Rightarrow> int \<Rightarrow> int \<Rightarrow> Collection \<Rightarrow> error option \<times> World" where
  "handler fails r userIp now now2 c =
     (case try_block fails r userIp now now2 \<lparr>coll = c, sent = None\<rparr> of
        (None, w) \<Rightarrow> (None, w)
      | (Some e, w) \<Rightarrow> res_send \<lparr>status = 500, body = Text ''Server Error''\<rparr> w)"

subsection \<open>Reading a collection\<close>

text \<open>No store call fails.\<close>

definition no_faults :: "StoreOp \<Rightarrow> bool" where
  "no_faults op = False"

text \<open>The counter record of a key: the document \<^verbatim>\<open>findOne\<close> returns for it.\<close>

definition record_of :: "string \<Rightarrow> Collection \<Rightarrow> ViewCountDocument option" where
  "record_of key c = map_option snd (findOne key c)"

definition count_of :: "string \<Rightarrow> Collection \<Rightarrow> nat" where
  "count_of key c = (case record_of key c of None \<Rightarrow> 0 | Some d \<Rightarrow> views d)"

text \<open>All the documents stored under a key, in the order of the collection.\<close>

definition records_of :: "string \<Rightarrow> Collection \<Rightarrow> ViewCountDocument list" where
  "records_of key c = filter (\<lambda>d. repo d = key) c"

text \<open>The document the handler holds after lines 64 to 70 when no store call fails: the
  one found, or the new one.\<close>

definition loaded :: "string \<Rightarrow> Collection \<Rightarrow> ViewCountDocument" where
  "loaded r c =
     (case record_of r c of None \<Rightarrow> \<lparr>repo = r, views = 0, ipLogs = []\<rparr> | Some d \<Rightarrow> d)"

subsection \<open>Requests one after the other\<close>

text \<open>A visit is an address and the two clock readings of its request. \<open>visits\<close> serves a
  list of visits of one key in order, no store call failing; \<open>new_visits\<close> says that each of
  them, when it arrives, finds no recent log of its address.\<close>

fun visits :: "string \<Rightarrow> (string \<times> int \<times> int) list \<Rightarrow> Collection \<Rightarrow> Collection" where
  "visits r [] c = c"
| "visits r ((userIp, now, now2) # vs) c =
     visits r vs (coll (snd (handler no_faults r userIp now now2 c)))"

fun new_visits :: "string \<Rightarrow> (string \<times> int \<times> int) list \<Rightarrow> Collection \<Rightarrow> bool" where
  "new_visits r [] c = True"
| "new_visits r ((userIp, now, now2) # vs) c =
     (recentEntry userIp (now - 3600000) (loaded r c) = None \<and>
      new_visits r vs (coll (snd (handler no_faults r userIp now now2 c))))"

section \<open>Properties\<close>

subsection \<open>The store\<close>

lemma findOne_SomeD:
  "findOne r c = Some (i, d) \<Longrightarrow> i < length c \<and> c ! i = d \<and> repo d = r"
  by (induction c arbitrary: i) (auto split: if_splits option.splits)

lemma findOne_None_iff: "findOne r c = None \<longleftrightarrow> (\<forall>d \<in> set c. repo d \<noteq> r)"
  by (induction c) (auto split: option.splits)

lemma findOne_update_same:
  "findOne r c = Some (i, d) \<Longrightarrow> repo d' = r \<Longrightarrow> findOne r (c[i := d']) = Some (i, d')"
  by (induction c arbitrary: i) (auto split: if_splits option.splits)

lemma findOne_append:
  "findOne k (c @ [d]) =
     (case findOne k c of Some f \<Rightarrow> Some f
      | None \<Rightarrow> if repo d = k then Some (length c, d) else None)"
  by (induction c) (auto split: option.splits)

lemma findOne_update_other:
  "findOne r c = Some (i, d) \<Longrightarrow> repo d' = r \<Longrightarrow> k \<noteq> r \<Longrightarrow> findOne k (c[i := d']) = findOne k c"
  by (induction c arbitrary: i) (auto split: if_splits option.splits)

lemma record_of_append_new:
  "findOne r c = None \<Longrightarrow> repo d = r \<Longrightarrow> record_of r (c @ [d]) = Some d"
  by (simp add: record_of_def findOne_append)

lemma record_of_update:
  "findOne r c = Some (i, d) \<Longrightarrow> repo d' = r \<Longrightarrow> record_of r (c[i := d']) = Some d'"
  by (simp add: record_of_def findOne_update_same)

lemma record_of_None: "record_of r c = None \<longleftrightarrow> findOne r c = None"
  by (simp add: record_of_def)

lemma record_of_SomeE:
  assumes "record_of r c = Some d"
  obtains i where "findOne r c = Some (i, d)"
  using assms by (auto simp add: record_of_def)

lemma loaded_absent: "findOne r c = None \<Longrightarrow> loaded r c = \<lparr>repo = r, views = 0, ipLogs = []\<rparr>"
  by (simp add: loaded_def record_of_def)

lemma loaded_found: "findOne r c = Some (i, d) \<Longrightarrow> loaded r c = d"
  by (simp add: loaded_def record_of_def)

text \<open>The documents of one key.\<close>

lemma records_of_update_other:
  "findOne r c = Some (i, d) \<Longrightarrow> repo d' = r \<Longrightarrow> k \<noteq> r \<Longrightarrow>
   records_of k (c[i := d']) = records_of k c"
  unfolding records_of_def
  by (induction c arbitrary: i) (auto split: if_splits option.splits)

lemma records_of_update_same:
  "findOne r c = Some (i, d) \<Longrightarrow> repo d' = r \<Longrightarrow>
   records_of r (c[i := d']) = (records_of r c)[0 := d']"
  unfolding records_of_def
  by (induction c arbitrary: i) (auto split: if_splits option.splits)

lemma records_of_absent: "findOne r c = None \<Longrightarrow> records_of r c = []"
  unfolding records_of_def by (induction c) (auto split: if_splits option.splits)

lemma findOne_records_of:
  "findOne r c = Some (i, d) \<Longrightarrow> findOne r (records_of r c) = Some (0, d)"
  unfolding records_of_def
  by (induction c arbitrary: i) (auto split: if_splits option.splits)

lemma records_of_append [simp]:
  "records_of k (c @ [d]) = (if repo d = k then records_of k c @ [d] else records_of k c)"
  by (simp add: records_of_def)

subsection \<open>The handler, case by case\<close>

lemma bump_fields [simp]:
  "repo (bump userIp t now2 d) = repo d"
  "views (bump userIp t now2 d) = views d + 1"
  "ipLogs (bump userIp t now2 d) =
     filter (\<lambda>log. timestamp log > t) (ipLogs d @ [\<lparr>ip = userIp, timestamp = now2\<rparr>])"
  by (simp_all add: bump_def Let_def)

lemma recentEntry_fresh [simp]:
  "recentEntry userIp t \<lparr>repo = r, views = 0, ipLogs = []\<rparr> = None"
  by (simp add: recentEntry_def)

lemma bump_eq:
  "bump userIp t now2 d =
     d\<lparr>views := views d + 1,
        ipLogs := filter (\<lambda>log. timestamp log > t) (ipLogs d @ [\<lparr>ip = userIp, timestamp = now2\<rparr>])\<rparr>"
  by (simp add: bump_def Let_def)

lemma recentEntry_None_iff:
  "recentEntry userIp t d = None \<longleftrightarrow>
     (\<forall>log \<in> set (ipLogs d). ip log = userIp \<longrightarrow> timestamp log \<le> t)"
  by (auto simp add: recentEntry_def find_None_iff)

lemma recentEntry_SomeD:
  "recentEntry userIp t d = Some e \<Longrightarrow> e \<in> set (ipLogs d) \<and> ip e = userIp \<and> t < timestamp e"
  by (auto simp add: recentEntry_def find_Some_iff)

text \<open>What the handler leaves in the collection, what the client receives and what
  exception leaves the handler, by the store calls that fail and the branch taken.\<close>

lemma stored_cases:
  "coll (snd (handler fails r userIp now now2 c)) =
     (if fails FindOne then c
      else (case findOne r c of
              None \<Rightarrow>
                if fails SaveNew then c
                else if fails SaveChanges then c @ [\<lparr>repo = r, views = 0, ipLogs = []\<rparr>]
                else c @ [bump userIp (now - 3600000) now2 \<lparr>repo = r, views = 0, ipLogs = []\<rparr>]
            | Some (i, d) \<Rightarrow>
                if fails SaveChanges then c else c[i := bump userIp (now - 3600000) now2 d]))"
  by (auto simp add: handler_def try_block_def find_or_create_def res_send_def Let_def
      split: option.splits)

lemma replied_cases:
  "sent (snd (handler fails r userIp now now2 c)) =
     (if fails FindOne then Some \<lparr>status = 500, body = Text ''Server Error''\<rparr>
      else (case findOne r c of
              None \<Rightarrow>
                if fails SaveNew \<or> fails SaveChanges
                then Some \<lparr>status = 500, body = Text ''Server Error''\<rparr>
                else Some \<lparr>status = 200, body = JSON_stringify (response 1)\<rparr>
            | Some (i, d) \<Rightarrow>
                if recentEntry userIp (now - 3600000) d \<noteq> None
                then Some \<lparr>status = 200, body = JSON_stringify (response (views d))\<rparr>
                else if fails SaveChanges
                then Some \<lparr>status = 500, body = Text ''Server Error''\<rparr>
                else Some \<lparr>status = 200, body = JSON_stringify (response (views d + 1))\<rparr>))"
  by (auto simp add: handler_def try_block_def find_or_create_def res_send_def Let_def
      split: option.splits)

lemma escaped_cases:
  "fst (handler fails r userIp now now2 c) =
     (if fails FindOne then None
      else (case findOne r c of
              None \<Rightarrow> None
            | Some (i, d) \<Rightarrow>
                if recentEntry userIp (now - 3600000) d \<noteq> None then Some HeadersSent else None))"
  by (auto simp add: handler_def try_block_def find_or_create_def res_send_def Let_def
      split: option.splits)

text \<open>A document is found and holds a recent log of the address: the reply of line 87 goes
  out with the old count, the document is changed and saved all the same, and the replies of
  lines 108 and 111 both throw.\<close>

lemma handler_found_repeat:
  assumes "findOne r c = Some (i, d)" "recentEntry userIp (now - 3600000) d \<noteq> None"
    and "\<not> fails FindOne" "\<not> fails SaveChanges"
  shows "handler fails r userIp now now2 c =
           (Some HeadersSent, \<lparr>coll = c[i := bump userIp (now - 3600000) now2 d],
                   sent = Some \<lparr>status = 200, body = JSON_stringify (response (views d))\<rparr>\<rparr>)"
  using assms by (auto simp add: handler_def try_block_def find_or_create_def res_send_def)

text \<open>A store call that fails before any reply went out is answered with 500; the
  collection is as it was, but for a document made on line 68 and saved on line 69.\<close>

lemma store_failure_before_reply:
  assumes "fails FindOne
           \<or> (findOne r c = None \<and> (fails SaveNew \<or> fails SaveChanges))
           \<or> (\<exists>i d. findOne r c = Some (i, d) \<and> recentEntry userIp (now - 3600000) d = None
                     \<and> fails SaveChanges)"
  shows "handler fails r userIp now now2 c =
           (None,
            \<lparr>coll = (if \<not> fails FindOne \<and> findOne r c = None \<and> \<not> fails SaveNew
                     then c @ [\<lparr>repo = r, views = 0, ipLogs = []\<rparr>] else c),
             sent = Some \<lparr>status = 500, body = Text ''Server Error''\<rparr>\<rparr>)"
  using assms
  by (auto simp add: handler_def try_block_def find_or_create_def res_send_def Let_def
      split: option.splits)

text \<open>A save changes the collection (a new document makes it longer, a saved one has
  one more view), so the collection differs exactly when a save went through.\<close>

lemma write_changes_collection:
  "coll (snd (handler fails r userIp now now2 c)) \<noteq> c \<longleftrightarrow>
     \<not> fails FindOne \<and>
     (case findOne r c of None \<Rightarrow> \<not> fails SaveNew | Some f \<Rightarrow> \<not> fails SaveChanges)"
proof (cases "findOne r c")
  case None
  then show ?thesis by (simp add: stored_cases)
next
  case (Some f)
  obtain i d where "f = (i, d)" by (cases f)
  with Some have found: "findOne r c = Some (i, d)" by simp
  then have "i < length c" "c ! i = d" by (simp_all add: findOne_SomeD)
  then have "views (c[i := bump userIp (now - 3600000) now2 d] ! i) \<noteq> views (c ! i)"
    by simp
  then have "c[i := bump userIp (now - 3600000) now2 d] \<noteq> c"
    by metis
  with found show ?thesis by (simp add: stored_cases)
qed

subsection \<open>Other keys\<close>

lemma other_records_kept:
  assumes "k \<noteq> r"
  shows "records_of k (coll (snd (handler fails r userIp now now2 c))) = records_of k c"
proof (cases "findOne r c")
  case None
  with assms show ?thesis by (simp add: stored_cases)
next
  case (Some f)
  obtain i d where "f = (i, d)" by (cases f)
  with Some have found: "findOne r c = Some (i, d)" by simp
  then have "repo d = r" by (simp add: findOne_SomeD)
  with found assms show ?thesis
    by (simp add: stored_cases records_of_update_other)
qed

lemma other_record_kept:
  assumes "k \<noteq> r"
  shows "findOne k (coll (snd (handler fails r userIp now now2 c))) = findOne k c"
proof (cases "findOne r c")
  case None
  with assms show ?thesis by (simp add: stored_cases findOne_append split: option.splits)
next
  case (Some f)
  obtain i d where "f = (i, d)" by (cases f)
  with Some have found: "findOne r c = Some (i, d)" by simp
  then have "repo d = r" by (simp add: findOne_SomeD)
  with found assms show ?thesis
    by (simp add: stored_cases findOne_update_other)
qed

text \<open>The handler run on the documents of its own key alone: same exception, same
  reply, and the documents of the key it leaves are the same.\<close>

lemma handler_on_own_records:
  "fst (handler fails r userIp now now2 (records_of r c)) = fst (handler fails r userIp now now2 c)
   \<and> sent (snd (handler fails r userIp now now2 (records_of r c))) =
       sent (snd (handler fails r userIp now now2 c))
   \<and> coll (snd (handler fails r userIp now now2 (records_of r c))) =
       records_of r (coll (snd (handler fails r userIp now now2 c)))"
proof (cases "findOne r c")
  case None
  then have e: "records_of r c = []" by (rule records_of_absent)
  from None show ?thesis
    by (simp add: escaped_cases replied_cases stored_cases e)
next
  case (Some f)
  obtain i d where "f = (i, d)" by (cases f)
  with Some have found: "findOne r c = Some (i, d)" by simp
  then have found': "findOne r (records_of r c) = Some (0, d)" by (rule findOne_records_of)
  from found have "repo d = r" by (simp add: findOne_SomeD)
  with found found' show ?thesis
    by (simp add: escaped_cases replied_cases stored_cases records_of_update_same)
qed

subsection \<open>Counting\<close>

lemma stored_length: "length c \<le> length (coll (snd (handler fails r userIp now now2 c)))"
  by (simp add: stored_cases split: option.splits)

lemma stored_views_at:
  assumes "j < length c"
  shows "views (c ! j) \<le> views (coll (snd (handler fails r userIp now now2 c)) ! j)
         \<and> repo (coll (snd (handler fails r userIp now now2 c)) ! j) = repo (c ! j)"
proof (cases "findOne r c")
  case None
  with assms show ?thesis by (simp add: stored_cases nth_append)
next
  case (Some f)
  obtain i d where "f = (i, d)" by (cases f)
  with Some have found: "findOne r c = Some (i, d)" by simp
  then have "i < length c" "c ! i = d" by (simp_all add: findOne_SomeD)
  with found assms show ?thesis
    by (cases "j = i") (simp_all add: stored_cases)
qed

lemma count_of_step:
  "count_of r (coll (snd (handler no_faults r userIp now now2 c))) = count_of r c + 1"
proof (cases "findOne r c")
  case None
  then show ?thesis
    by (simp add: stored_cases no_faults_def count_of_def record_of_append_new)
       (simp add: record_of_def)
next
  case (Some f)
  obtain i d where "f = (i, d)" by (cases f)
  with Some have found: "findOne r c = Some (i, d)" by simp
  then have "repo d = r" by (simp add: findOne_SomeD)
  with found show ?thesis
    by (simp add: stored_cases no_faults_def count_of_def record_of_update)
       (simp add: record_of_def)
qed

lemma count_of_monotone:
  "count_of k c \<le> count_of k (coll (snd (handler fails r userIp now now2 c)))"
proof (cases "k = r")
  case False
  then show ?thesis by (simp add: count_of_def record_of_def other_record_kept)
next
  case True
  show ?thesis
  proof (cases "findOne r c")
    case None
    with True show ?thesis by (simp add: count_of_def record_of_def)
  next
    case (Some f)
    obtain i d where "f = (i, d)" by (cases f)
    with Some have found: "findOne r c = Some (i, d)" by simp
    then have "repo d = r" by (simp add: findOne_SomeD)
    with found True show ?thesis
      by (simp add: stored_cases count_of_def record_of_update)
         (simp add: record_of_def)
  qed
qed

lemma count_of_visits: "count_of r (visits r vs c) = count_of r c + length vs"
proof (induction vs arbitrary: c)
  case Nil
  show ?case by simp
next
  case (Cons v vs)
  obtain userIp now now2 where v: "v = (userIp, now, now2)" by (cases v)
  show ?case by (simp add: v Cons.IH count_of_step)
qed

subsection \<open>Decimal strings\<close>

lemma digit_range: "d < 10 \<Longrightarrow> d \<in> {0, 1, 2, 3, 4, 5, 6, 7, 8, 9 :: nat}"
  by auto

lemma digit_val_digit_char: "d < 10 \<Longrightarrow> digit_val (digit_char d) = d"
  using digit_range [of d] by (auto simp: digit_char_def digit_val_def)

lemma digit_char_is_digit: "d < 10 \<Longrightarrow> digit_char d \<in> set ''0123456789''"
  using digit_range [of d] by (auto simp: digit_char_def)

lemma digit_char_zero: "d < 10 \<Longrightarrow> digit_char d = CHR ''0'' \<longleftrightarrow> d = 0"
  using digit_range [of d] by (auto simp: digit_char_def)

lemma decimal_value_snoc: "decimal_value (s @ [c]) = 10 * decimal_value s + digit_val c"
  by (simp add: decimal_value_def)

lemma String_num_nonempty: "String_num n \<noteq> []"
  by (subst String_num.simps) simp

lemma decimal_value_String_num: "decimal_value (String_num n) = n"
proof (induction n rule: String_num.induct)
  case (1 n)
  show ?case
  proof (cases "n < 10")
    case True
    then show ?thesis
      by (subst String_num.simps) (simp add: decimal_value_def digit_val_digit_char)
  next
    case False
    with 1 have "decimal_value (String_num (n div 10)) = n div 10" by simp
    with False show ?thesis
      by (subst String_num.simps) (simp add: decimal_value_snoc digit_val_digit_char)
  qed
qed

lemma String_num_digits: "set (String_num n) \<subseteq> set ''0123456789''"
proof (induction n rule: String_num.induct)
  case (1 n)
  show ?case
  proof (cases "n < 10")
    case True
    then show ?thesis
      using digit_char_is_digit [of n] by (subst String_num.simps) simp
  next
    case False
    with 1 have "set (String_num (n div 10)) \<subseteq> set ''0123456789''" by simp
    moreover have "digit_char (n mod 10) \<in> set ''0123456789''"
      by (rule digit_char_is_digit) simp
    ultimately show ?thesis using False
      by (subst String_num.simps) simp
  qed
qed

lemma String_num_hd: "hd (String_num n) = CHR ''0'' \<longleftrightarrow> n = 0"
proof (induction n rule: String_num.induct)
  case (1 n)
  show ?case
  proof (cases "n < 10")
    case True
    then show ?thesis
      using digit_char_zero [of n] by (subst String_num.simps) simp
  next
    case False
    with 1 have "hd (String_num (n div 10)) = CHR ''0'' \<longleftrightarrow> n div 10 = 0" by simp
    with False show ?thesis
      by (subst String_num.simps) (simp add: String_num_nonempty)
  qed
qed

section \<open>The claims\<close>

text \<open>
  In what follows \<open>now\<close> is the reading of the clock on line 73 and \<open>now2\<close> the one on
  line 92; the spec's single instant is the case \<open>now2 = now\<close>. An hour is 3600000
  milliseconds.
\<close>

text \<open>
  C1. Claimed: on a repeat visit (the record holds a log of the address younger than an
  hour) the count is left unchanged, no log is appended and the reported count is the
  record's current count. The handler does not return after the reply of line 87: with one
  view recorded for 1.2.3.4 at time 0, the same address asking again ten minutes later gets
  the reply "1", and the stored record then holds 2 views and a second log. Lemma
  \<open>handler_found_repeat\<close> is the same for every repeat visit.
\<close>

theorem repeat_visit_is_counted:
  "recentEntry ''1.2.3.4'' (600000 - 3600000)
     \<lparr>repo = ''repo1'', views = 1, ipLogs = [\<lparr>ip = ''1.2.3.4'', timestamp = 0\<rparr>]\<rparr>
     = Some \<lparr>ip = ''1.2.3.4'', timestamp = 0\<rparr>
   \<and> handler no_faults ''repo1'' ''1.2.3.4'' 600000 600000
       [\<lparr>repo = ''repo1'', views = 1, ipLogs = [\<lparr>ip = ''1.2.3.4'', timestamp = 0\<rparr>]\<rparr>]
     = (Some HeadersSent,
        \<lparr>coll = [\<lparr>repo = ''repo1'', views = 2,
                   ipLogs = [\<lparr>ip = ''1.2.3.4'', timestamp = 0\<rparr>,
                             \<lparr>ip = ''1.2.3.4'', timestamp = 600000\<rparr>]\<rparr>],
         sent = Some \<lparr>status = 200,
                      body = JSON_stringify
                        \<lparr>schemaVersion = 1, label = ''Profile View'', message = ''1'',
                         color = ''blue''\<rparr>\<rparr>\<rparr>)"
  by (simp add: handler_def try_block_def find_or_create_def res_send_def recentEntry_def
      no_faults_def bump_def response_def String_num.simps digit_char_def)

text \<open>
  C2. A visit that finds no recent log of its address, in the document found or in the one
  just made, is counted: with no store call failing, the saved record is the loaded one with
  one more view and with the log of the address at the time of line 92 appended before the
  old logs are dropped, the count of the key grows by exactly 1, and the reply reports the
  new count.
\<close>

theorem new_visit_is_counted:
  assumes "recentEntry userIp (now - 3600000) (loaded r c) = None"
  shows "record_of r (coll (snd (handler no_faults r userIp now now2 c))) =
           Some ((loaded r c)
                  \<lparr>views := views (loaded r c) + 1,
                   ipLogs := filter (\<lambda>log. timestamp log > now - 3600000)
                               (ipLogs (loaded r c) @ [\<lparr>ip = userIp, timestamp = now2\<rparr>])\<rparr>)
         \<and> count_of r (coll (snd (handler no_faults r userIp now now2 c))) = count_of r c + 1
         \<and> sent (snd (handler no_faults r userIp now now2 c)) =
             Some \<lparr>status = 200, body = JSON_stringify (response (count_of r c + 1))\<rparr>
         \<and> fst (handler no_faults r userIp now now2 c) = None"
proof (cases "findOne r c")
  case None
  then show ?thesis
    by (simp add: stored_cases replied_cases escaped_cases no_faults_def loaded_absent
        record_of_append_new count_of_def bump_eq)
       (simp add: record_of_def)
next
  case (Some f)
  obtain i d where f: "f = (i, d)" by (cases f)
  with Some have found: "findOne r c = Some (i, d)" by simp
  then have rd: "repo d = r" by (simp add: findOne_SomeD)
  from found assms have new: "recentEntry userIp (now - 3600000) d = None"
    by (simp add: loaded_found)
  from found rd new show ?thesis
    by (simp add: stored_cases replied_cases escaped_cases no_faults_def loaded_found
        record_of_update count_of_def bump_eq)
       (simp add: record_of_def)
qed

theorem new_visit_is_counted_witness:
  "recentEntry ''5.6.7.8'' (1200000 - 3600000)
     (loaded ''repo1''
        [\<lparr>repo = ''repo1'', views = 4, ipLogs = [\<lparr>ip = ''1.2.3.4'', timestamp = 0\<rparr>]\<rparr>]) = None
   \<and> record_of ''repo1''
        (coll (snd (handler no_faults ''repo1'' ''5.6.7.8'' 1200000 1200000
           [\<lparr>repo = ''repo1'', views = 4, ipLogs = [\<lparr>ip = ''1.2.3.4'', timestamp = 0\<rparr>]\<rparr>])))
       = Some \<lparr>repo = ''repo1'', views = 5,
               ipLogs = [\<lparr>ip = ''1.2.3.4'', timestamp = 0\<rparr>,
                         \<lparr>ip = ''5.6.7.8'', timestamp = 1200000\<rparr>]\<rparr>"
proof -
  have l: "loaded ''repo1''
        [\<lparr>repo = ''repo1'', views = 4, ipLogs = [\<lparr>ip = ''1.2.3.4'', timestamp = 0\<rparr>]\<rparr>]
      = \<lparr>repo = ''repo1'', views = 4, ipLogs = [\<lparr>ip = ''1.2.3.4'', timestamp = 0\<rparr>]\<rparr>"
    by (simp add: loaded_def record_of_def)
  have h: "recentEntry ''5.6.7.8'' (1200000 - 3600000)
     (loaded ''repo1''
        [\<lparr>repo = ''repo1'', views = 4, ipLogs = [\<lparr>ip = ''1.2.3.4'', timestamp = 0\<rparr>]\<rparr>]) = None"
    by (simp add: l recentEntry_def)
  from new_visit_is_counted [OF h, of 1200000] h show ?thesis
    by (simp add: l)
qed

text \<open>
  C3. Whatever store calls fail and whichever branch is taken, once the handler has written
  to the collection (the collection differs, see \<open>write_changes_collection\<close>) the record of
  the key holds only logs with a timestamp strictly greater than \<open>now\<close> minus one hour.
\<close>

theorem pruning_bound:
  assumes "coll (snd (handler fails r userIp now now2 c)) \<noteq> c"
  shows "\<exists>d. record_of r (coll (snd (handler fails r userIp now now2 c))) = Some d \<and>
             (\<forall>log \<in> set (ipLogs d). now - 3600000 < timestamp log)"
proof (cases "findOne r c")
  case None
  with assms show ?thesis
    by (auto simp add: stored_cases record_of_append_new split: if_splits)
next
  case (Some f)
  obtain i d where "f = (i, d)" by (cases f)
  with Some have found: "findOne r c = Some (i, d)" by simp
  then have "repo d = r" by (simp add: findOne_SomeD)
  with found assms show ?thesis
    by (auto simp add: stored_cases record_of_update split: if_splits)
qed

theorem pruning_bound_witness:
  "coll (snd (handler no_faults ''repo1'' ''1.2.3.4'' 7200000 7200000
       [\<lparr>repo = ''repo1'', views = 2,
         ipLogs = [\<lparr>ip = ''1.2.3.4'', timestamp = 0\<rparr>,
                   \<lparr>ip = ''5.6.7.8'', timestamp = 1200000\<rparr>]\<rparr>]))
     \<noteq> [\<lparr>repo = ''repo1'', views = 2,
          ipLogs = [\<lparr>ip = ''1.2.3.4'', timestamp = 0\<rparr>,
                    \<lparr>ip = ''5.6.7.8'', timestamp = 1200000\<rparr>]\<rparr>]
   \<and> (\<exists>d. record_of ''repo1''
            (coll (snd (handler no_faults ''repo1'' ''1.2.3.4'' 7200000 7200000
               [\<lparr>repo = ''repo1'', views = 2,
                 ipLogs = [\<lparr>ip = ''1.2.3.4'', timestamp = 0\<rparr>,
                           \<lparr>ip = ''5.6.7.8'', timestamp = 1200000\<rparr>]\<rparr>]))) = Some d
          \<and> (\<forall>log \<in> set (ipLogs d). 7200000 - 3600000 < timestamp log))"
proof -
  have h: "coll (snd (handler no_faults ''repo1'' ''1.2.3.4'' 7200000 7200000
       [\<lparr>repo = ''repo1'', views = 2,
         ipLogs = [\<lparr>ip = ''1.2.3.4'', timestamp = 0\<rparr>,
                   \<lparr>ip = ''5.6.7.8'', timestamp = 1200000\<rparr>]\<rparr>]))
     \<noteq> [\<lparr>repo = ''repo1'', views = 2,
          ipLogs = [\<lparr>ip = ''1.2.3.4'', timestamp = 0\<rparr>,
                    \<lparr>ip = ''5.6.7.8'', timestamp = 1200000\<rparr>]\<rparr>]"
    by (simp add: stored_cases no_faults_def bump_eq)
  from pruning_bound [OF h] h show ?thesis
    by blast
qed

text \<open>
  C4. For a key without a record, lines 64 to 70 make the record with no views and no logs
  and save it before the search of line 74: it is in the collection even when the later
  save fails. The search finds nothing in it, so with no store call failing the reply
  reports 1 and the count of the key is 1.
\<close>

theorem first_request_creates_record:
  assumes "record_of r c = None"
  shows "find_or_create no_faults r \<lparr>coll = c, sent = None\<rparr> =
           (Inr (length c, \<lparr>repo = r, views = 0, ipLogs = []\<rparr>),
            \<lparr>coll = c @ [\<lparr>repo = r, views = 0, ipLogs = []\<rparr>], sent = None\<rparr>)
         \<and> record_of r (coll (snd (handler (\<lambda>op. op = SaveChanges) r userIp now now2 c))) =
             Some \<lparr>repo = r, views = 0, ipLogs = []\<rparr>
         \<and> recentEntry userIp (now - 3600000) \<lparr>repo = r, views = 0, ipLogs = []\<rparr> = None
         \<and> sent (snd (handler no_faults r userIp now now2 c)) =
             Some \<lparr>status = 200,
                   body = JSON_stringify
                     \<lparr>schemaVersion = 1, label = ''Profile View'', message = ''1'',
                      color = ''blue''\<rparr>\<rparr>
         \<and> count_of r (coll (snd (handler no_faults r userIp now now2 c))) = 1"
proof -
  from assms have absent: "findOne r c = None" by (simp add: record_of_None)
  have one: "response (Suc 0) =
      \<lparr>schemaVersion = 1, label = ''Profile View'', message = ''1'', color = ''blue''\<rparr>"
    by (simp add: response_def String_num.simps digit_char_def)
  from absent have "find_or_create no_faults r \<lparr>coll = c, sent = None\<rparr> =
           (Inr (length c, \<lparr>repo = r, views = 0, ipLogs = []\<rparr>),
            \<lparr>coll = c @ [\<lparr>repo = r, views = 0, ipLogs = []\<rparr>], sent = None\<rparr>)"
    by (simp add: find_or_create_def no_faults_def Let_def)
  moreover from absent
  have "record_of r (coll (snd (handler (\<lambda>op. op = SaveChanges) r userIp now now2 c))) =
             Some \<lparr>repo = r, views = 0, ipLogs = []\<rparr>"
    by (simp add: stored_cases record_of_append_new)
  moreover from absent have "sent (snd (handler no_faults r userIp now now2 c)) =
             Some \<lparr>status = 200, body = JSON_stringify (response 1)\<rparr>"
    by (simp add: replied_cases no_faults_def)
  moreover from absent
  have "count_of r (coll (snd (handler no_faults r userIp now now2 c))) = 1"
    by (simp add: stored_cases no_faults_def count_of_def record_of_append_new)
  ultimately show ?thesis by (simp add: one)
qed

theorem first_request_creates_record_witness:
  "record_of ''repo1'' [] = None
   \<and> sent (snd (handler no_faults ''repo1'' ''1.2.3.4'' 0 0 [])) =
       Some \<lparr>status = 200,
             body = JSON_stringify
               \<lparr>schemaVersion = 1, label = ''Profile View'', message = ''1'', color = ''blue''\<rparr>\<rparr>
   \<and> count_of ''repo1'' (coll (snd (handler no_faults ''repo1'' ''1.2.3.4'' 0 0 []))) = 1"
proof -
  have h: "record_of ''repo1'' [] = None"
    by (simp add: record_of_def)
  from first_request_creates_record [OF h, of "''1.2.3.4''" 0 0] h show ?thesis
    by simp
qed

text \<open>
  C5. No request, whatever fails in it, lowers the views of a document or the count of a
  key, and documents keep their place and their key. Starting from a key without a record,
  after a run of visits that are all new the count of the key is the number of visits.
\<close>

theorem count_monotone_and_exact:
  "(\<forall>i < length c.
       views (c ! i) \<le> views (coll (snd (handler fails r userIp now now2 c)) ! i)
       \<and> repo (coll (snd (handler fails r userIp now now2 c)) ! i) = repo (c ! i))
   \<and> length c \<le> length (coll (snd (handler fails r userIp now now2 c)))
   \<and> count_of k c \<le> count_of k (coll (snd (handler fails r userIp now now2 c)))
   \<and> (record_of r c = None \<longrightarrow> new_visits r vs c \<longrightarrow> count_of r (visits r vs c) = length vs)"
proof -
  have "record_of r c = None \<longrightarrow> count_of r (visits r vs c) = length vs"
    by (simp add: count_of_visits) (simp add: count_of_def)
  then show ?thesis
    by (simp add: stored_views_at stored_length count_of_monotone)
qed

theorem count_monotone_and_exact_witness:
  "views ([\<lparr>repo = ''repo1'', views = 5, ipLogs = []\<rparr>] ! 0)
     \<le> views (coll (snd (handler no_faults ''repo1'' ''1.2.3.4'' 0 0
                  [\<lparr>repo = ''repo1'', views = 5, ipLogs = []\<rparr>])) ! 0)
   \<and> record_of ''repo2'' [\<lparr>repo = ''repo1'', views = 5, ipLogs = []\<rparr>] = None
   \<and> new_visits ''repo2''
        [(''1.2.3.4'', 0, 0), (''5.6.7.8'', 1200000, 1200000), (''1.2.3.4'', 7200000, 7200000)]
        [\<lparr>repo = ''repo1'', views = 5, ipLogs = []\<rparr>]
   \<and> count_of ''repo2''
        (visits ''repo2''
           [(''1.2.3.4'', 0, 0), (''5.6.7.8'', 1200000, 1200000), (''1.2.3.4'', 7200000, 7200000)]
           [\<lparr>repo = ''repo1'', views = 5, ipLogs = []\<rparr>]) = 3"
  using count_monotone_and_exact
    [where c = "[\<lparr>repo = ''repo1'', views = 5, ipLogs = []\<rparr>]" and fails = no_faults
       and r = "''repo1''" and userIp = "''1.2.3.4''" and now = 0 and ?now2.0 = 0
       and k = "''repo1''" and vs = "[]"]
    count_monotone_and_exact
    [where c = "[\<lparr>repo = ''repo1'', views = 5, ipLogs = []\<rparr>]" and fails = no_faults
       and r = "''repo2''" and userIp = "''1.2.3.4''" and now = 0 and ?now2.0 = 0
       and k = "''repo1''"
       and vs = "[(''1.2.3.4'', 0, 0), (''5.6.7.8'', 1200000, 1200000), (''1.2.3.4'', 7200000, 7200000)]"]
  by (simp add: record_of_def loaded_def recentEntry_def stored_cases no_faults_def)

text \<open>
  C6. When the latest log of an address in the record of a key is more than an hour older
  than \<open>now\<close>, the search of line 74 finds nothing and the visit is counted: the count grows
  by one and the reply reports it.
\<close>

theorem window_expiry:
  assumes "record_of r c = Some d"
    and "\<lparr>ip = userIp, timestamp = firstTimestamp\<rparr> \<in> set (ipLogs d)"
    and "\<forall>log \<in> set (ipLogs d). ip log = userIp \<longrightarrow> timestamp log \<le> firstTimestamp"
    and "firstTimestamp + 3600000 < now"
  shows "recentEntry userIp (now - 3600000) d = None
         \<and> count_of r (coll (snd (handler no_faults r userIp now now2 c))) = views d + 1
         \<and> sent (snd (handler no_faults r userIp now now2 c)) =
             Some \<lparr>status = 200, body = JSON_stringify (response (views d + 1))\<rparr>
         \<and> fst (handler no_faults r userIp now now2 c) = None"
proof -
  from assms(1) obtain i where found: "findOne r c = Some (i, d)"
    by (rule record_of_SomeE)
  then have rd: "repo d = r" by (simp add: findOne_SomeD)
  from assms(3,4) have new: "recentEntry userIp (now - 3600000) d = None"
    by (fastforce simp add: recentEntry_None_iff)
  with found rd show ?thesis
    by (simp add: stored_cases replied_cases escaped_cases no_faults_def count_of_def
        record_of_update)
qed

theorem window_expiry_witness:
  "record_of ''repo1''
     [\<lparr>repo = ''repo1'', views = 2,
       ipLogs = [\<lparr>ip = ''1.2.3.4'', timestamp = 0\<rparr>,
                 \<lparr>ip = ''5.6.7.8'', timestamp = 1200000\<rparr>]\<rparr>]
     = Some \<lparr>repo = ''repo1'', views = 2,
             ipLogs = [\<lparr>ip = ''1.2.3.4'', timestamp = 0\<rparr>,
                       \<lparr>ip = ''5.6.7.8'', timestamp = 1200000\<rparr>]\<rparr>
   \<and> (0::int) + 3600000 < 7200000
   \<and> count_of ''repo1''
        (coll (snd (handler no_faults ''repo1'' ''1.2.3.4'' 7200000 7200000
           [\<lparr>repo = ''repo1'', views = 2,
             ipLogs = [\<lparr>ip = ''1.2.3.4'', timestamp = 0\<rparr>,
                       \<lparr>ip = ''5.6.7.8'', timestamp = 1200000\<rparr>]\<rparr>]))) = 3"
proof -
  have h1: "record_of ''repo1''
     [\<lparr>repo = ''repo1'', views = 2,
       ipLogs = [\<lparr>ip = ''1.2.3.4'', timestamp = 0\<rparr>,
                 \<lparr>ip = ''5.6.7.8'', timestamp = 1200000\<rparr>]\<rparr>]
     = Some \<lparr>repo = ''repo1'', views = 2,
             ipLogs = [\<lparr>ip = ''1.2.3.4'', timestamp = 0\<rparr>,
                       \<lparr>ip = ''5.6.7.8'', timestamp = 1200000\<rparr>]\<rparr>"
    by (simp add: record_of_def)
  have h2: "\<lparr>ip = ''1.2.3.4'', timestamp = 0\<rparr>
      \<in> set (ipLogs \<lparr>repo = ''repo1'', views = 2,
             ipLogs = [\<lparr>ip = ''1.2.3.4'', timestamp = 0\<rparr>,
                       \<lparr>ip = ''5.6.7.8'', timestamp = 1200000\<rparr>]\<rparr>)"
    by simp
  have h3: "\<forall>log \<in> set (ipLogs \<lparr>repo = ''repo1'', views = 2,
             ipLogs = [\<lparr>ip = ''1.2.3.4'', timestamp = 0\<rparr>,
                       \<lparr>ip = ''5.6.7.8'', timestamp = 1200000\<rparr>]\<rparr>).
           ip log = ''1.2.3.4'' \<longrightarrow> timestamp log \<le> 0"
    by simp
  have h4: "(0::int) + 3600000 < 7200000" by simp
  from window_expiry [OF h1 h2 h3 h4, of 7200000] h1 show ?thesis
    by simp
qed

text \<open>
  C7. The reporting projection is a total function of the count alone: for every
  non-negative count it is the badge with schema version 1, label "Profile View", colour
  "blue" and, as message, the count in decimal: a non-empty string of digits that denotes
  the count and starts with 0 only for the count 0.
\<close>

theorem reporting_projection:
  "response n =
     \<lparr>schemaVersion = 1, label = ''Profile View'', message = String_num n, color = ''blue''\<rparr>
   \<and> decimal_value (message (response n)) = n
   \<and> set (message (response n)) \<subseteq> set ''0123456789''
   \<and> message (response n) \<noteq> []
   \<and> (hd (message (response n)) = CHR ''0'') = (n = 0)"
proof -
  have "set (String_num n) \<subseteq> set ''0123456789''"
    by (rule String_num_digits)
  then show ?thesis
    by (simp add: response_def decimal_value_String_num String_num_nonempty String_num_hd)
qed

theorem reporting_projection_witness:
  "response 1203 =
     \<lparr>schemaVersion = 1, label = ''Profile View'', message = ''1203'', color = ''blue''\<rparr>
   \<and> decimal_value ''1203'' = 1203"
  using reporting_projection [of 1203]
  by (simp add: response_def String_num.simps digit_char_def)

text \<open>
  C8. Claimed: every failure raised while a request is handled is caught and answered with
  status 500, and a failure before the write leaves the record as it was. On a repeat visit
  the reply of line 87 has gone out when the save of line 99 runs; if that save fails, the
  reply of line 111 throws in its turn and the client keeps status 200 with the count. The
  record is left as it was. Lemma \<open>store_failure_before_reply\<close> is the part that holds: a
  store call that fails before any reply is answered with 500.
\<close>

theorem failed_save_after_reply:
  "handler (\<lambda>op. op = SaveChanges) ''repo1'' ''1.2.3.4'' 600000 600000
       [\<lparr>repo = ''repo1'', views = 1, ipLogs = [\<lparr>ip = ''1.2.3.4'', timestamp = 0\<rparr>]\<rparr>]
     = (Some HeadersSent,
        \<lparr>coll = [\<lparr>repo = ''repo1'', views = 1, ipLogs = [\<lparr>ip = ''1.2.3.4'', timestamp = 0\<rparr>]\<rparr>],
         sent = Some \<lparr>status = 200,
                      body = JSON_stringify
                        \<lparr>schemaVersion = 1, label = ''Profile View'', message = ''1'',
                         color = ''blue''\<rparr>\<rparr>\<rparr>)"
  by (simp add: handler_def try_block_def find_or_create_def res_send_def recentEntry_def
      bump_def response_def String_num.simps digit_char_def)

text \<open>
  C9. A request for key A, whatever fails in it, leaves the documents of any other key B as
  they were, and does not read them: on two collections that hold the same documents of A
  it throws the same, replies the same and leaves the same documents of A.
\<close>

theorem key_isolation:
  assumes "A \<noteq> B"
  shows "records_of B (coll (snd (handler fails A userIp now now2 c))) = records_of B c
         \<and> record_of B (coll (snd (handler fails A userIp now now2 c))) = record_of B c
         \<and> (records_of A c' = records_of A c \<longrightarrow>
              fst (handler fails A userIp now now2 c') = fst (handler fails A userIp now now2 c)
              \<and> sent (snd (handler fails A userIp now now2 c')) =
                  sent (snd (handler fails A userIp now now2 c))
              \<and> records_of A (coll (snd (handler fails A userIp now now2 c'))) =
                  records_of A (coll (snd (handler fails A userIp now now2 c))))"
proof -
  from assms have "B \<noteq> A" by simp
  then have "records_of B (coll (snd (handler fails A userIp now now2 c))) = records_of B c"
    by (rule other_records_kept)
  moreover from \<open>B \<noteq> A\<close>
  have "record_of B (coll (snd (handler fails A userIp now now2 c))) = record_of B c"
    by (simp add: record_of_def other_record_kept)
  moreover have "records_of A c' = records_of A c \<longrightarrow>
              fst (handler fails A userIp now now2 c') = fst (handler fails A userIp now now2 c)
              \<and> sent (snd (handler fails A userIp now now2 c')) =
                  sent (snd (handler fails A userIp now now2 c))
              \<and> records_of A (coll (snd (handler fails A userIp now now2 c'))) =
                  records_of A (coll (snd (handler fails A userIp now now2 c)))"
    by (metis handler_on_own_records)
  ultimately show ?thesis by simp
qed

theorem key_isolation_witness:
  "''repo1'' \<noteq> ''repo2''
   \<and> records_of ''repo2''
        (coll (snd (handler no_faults ''repo1'' ''1.2.3.4'' 600000 600000
           [\<lparr>repo = ''repo1'', views = 1, ipLogs = [\<lparr>ip = ''1.2.3.4'', timestamp = 0\<rparr>]\<rparr>,
            \<lparr>repo = ''repo2'', views = 7, ipLogs = [\<lparr>ip = ''1.2.3.4'', timestamp = 5\<rparr>]\<rparr>])))
       = [\<lparr>repo = ''repo2'', views = 7, ipLogs = [\<lparr>ip = ''1.2.3.4'', timestamp = 5\<rparr>]\<rparr>]
   \<and> records_of ''repo1''
        [\<lparr>repo = ''repo2'', views = 9, ipLogs = []\<rparr>,
         \<lparr>repo = ''repo1'', views = 1, ipLogs = [\<lparr>ip = ''1.2.3.4'', timestamp = 0\<rparr>]\<rparr>]
       = records_of ''repo1''
           [\<lparr>repo = ''repo1'', views = 1, ipLogs = [\<lparr>ip = ''1.2.3.4'', timestamp = 0\<rparr>]\<rparr>,
            \<lparr>repo = ''repo2'', views = 7, ipLogs = [\<lparr>ip = ''1.2.3.4'', timestamp = 5\<rparr>]\<rparr>]
   \<and> sent (snd (handler no_faults ''repo1'' ''1.2.3.4'' 600000 600000
        [\<lparr>repo = ''repo2'', views = 9, ipLogs = []\<rparr>,
         \<lparr>repo = ''repo1'', views = 1, ipLogs = [\<lparr>ip = ''1.2.3.4'', timestamp = 0\<rparr>]\<rparr>]))
       = sent (snd (handler no_faults ''repo1'' ''1.2.3.4'' 600000 600000
           [\<lparr>repo = ''repo1'', views = 1, ipLogs = [\<lparr>ip = ''1.2.3.4'', timestamp = 0\<rparr>]\<rparr>,
            \<lparr>repo = ''repo2'', views = 7, ipLogs = [\<lparr>ip = ''1.2.3.4'', timestamp = 5\<rparr>]\<rparr>]))"
proof -
  have h: "''repo1'' \<noteq> ''repo2''" by simp
  have e: "records_of ''repo1''
        [\<lparr>repo = ''repo2'', views = 9, ipLogs = []\<rparr>,
         \<lparr>repo = ''repo1'', views = 1, ipLogs = [\<lparr>ip = ''1.2.3.4'', timestamp = 0\<rparr>]\<rparr>]
       = records_of ''repo1''
           [\<lparr>repo = ''repo1'', views = 1, ipLogs = [\<lparr>ip = ''1.2.3.4'', timestamp = 0\<rparr>]\<rparr>,
            \<lparr>repo = ''repo2'', views = 7, ipLogs = [\<lparr>ip = ''1.2.3.4'', timestamp = 5\<rparr>]\<rparr>]"
    by (simp add: records_of_def)
  have b: "records_of ''repo2''
           [\<lparr>repo = ''repo1'', views = 1, ipLogs = [\<lparr>ip = ''1.2.3.4'', timestamp = 0\<rparr>]\<rparr>,
            \<lparr>repo = ''repo2'', views = 7, ipLogs = [\<lparr>ip = ''1.2.3.4'', timestamp = 5\<rparr>]\<rparr>]
       = [\<lparr>repo = ''repo2'', views = 7, ipLogs = [\<lparr>ip = ''1.2.3.4'', timestamp = 5\<rparr>]\<rparr>]"
    by (simp add: records_of_def)
  from key_isolation [OF h, of no_faults "''1.2.3.4''" 600000 600000
      "[\<lparr>repo = ''repo1'', views = 1, ipLogs = [\<lparr>ip = ''1.2.3.4'', timestamp = 0\<rparr>]\<rparr>,
        \<lparr>repo = ''repo2'', views = 7, ipLogs = [\<lparr>ip = ''1.2.3.4'', timestamp = 5\<rparr>]\<rparr>]"
      "[\<lparr>repo = ''repo2'', views = 9, ipLogs = []\<rparr>,
        \<lparr>repo = ''repo1'', views = 1, ipLogs = [\<lparr>ip = ''1.2.3.4'', timestamp = 0\<rparr>]\<rparr>]"]
    h e b
  show ?thesis by simp
qed

text \<open>
  C10. When no store call fails and the clock does not run backwards between lines 73 and
  92, the saved record of the key holds a log of the requesting address younger than an hour
  before \<open>now\<close>: the log appended on line 92 passes the filter of line 95, and so does the
  recent log found on line 74, if there is one.
\<close>

theorem requester_is_logged:
  assumes "now \<le> now2"
  shows "\<exists>d. record_of r (coll (snd (handler no_faults r userIp now now2 c))) = Some d
           \<and> \<lparr>ip = userIp, timestamp = now2\<rparr> \<in> set (ipLogs d)
           \<and> (\<forall>e. recentEntry userIp (now - 3600000) (loaded r c) = Some e \<longrightarrow> e \<in> set (ipLogs d))
           \<and> (\<exists>log \<in> set (ipLogs d). ip log = userIp \<and> now - 3600000 < timestamp log)"
proof (cases "findOne r c")
  case None
  with assms show ?thesis
    by (simp add: stored_cases no_faults_def record_of_append_new loaded_absent)
next
  case (Some f)
  obtain i d where "f = (i, d)" by (cases f)
  with Some have found: "findOne r c = Some (i, d)" by simp
  then have rd: "repo d = r" by (simp add: findOne_SomeD)
  from found rd assms show ?thesis
    by (auto simp add: stored_cases no_faults_def record_of_update loaded_found
        dest: recentEntry_SomeD)
qed

theorem requester_is_logged_witness:
  "(600000::int) \<le> 600000
   \<and> recentEntry ''1.2.3.4'' (600000 - 3600000)
        (loaded ''repo1''
           [\<lparr>repo = ''repo1'', views = 4, ipLogs = [\<lparr>ip = ''1.2.3.4'', timestamp = 0\<rparr>]\<rparr>])
       = Some \<lparr>ip = ''1.2.3.4'', timestamp = 0\<rparr>
   \<and> (\<exists>d. record_of ''repo1''
            (coll (snd (handler no_faults ''repo1'' ''1.2.3.4'' 600000 600000
               [\<lparr>repo = ''repo1'', views = 4,
                 ipLogs = [\<lparr>ip = ''1.2.3.4'', timestamp = 0\<rparr>]\<rparr>]))) = Some d
          \<and> \<lparr>ip = ''1.2.3.4'', timestamp = 600000\<rparr> \<in> set (ipLogs d)
          \<and> \<lparr>ip = ''1.2.3.4'', timestamp = 0\<rparr> \<in> set (ipLogs d))"
proof -
  have h: "(600000::int) \<le> 600000" by simp
  have e: "recentEntry ''1.2.3.4'' (600000 - 3600000)
        (loaded ''repo1''
           [\<lparr>repo = ''repo1'', views = 4, ipLogs = [\<lparr>ip = ''1.2.3.4'', timestamp = 0\<rparr>]\<rparr>])
       = Some \<lparr>ip = ''1.2.3.4'', timestamp = 0\<rparr>"
    by (simp add: loaded_def record_of_def recentEntry_def)
  from requester_is_logged [OF h, of "''repo1''" "''1.2.3.4''"
      "[\<lparr>repo = ''repo1'', views = 4, ipLogs = [\<lparr>ip = ''1.2.3.4'', timestamp = 0\<rparr>]\<rparr>]"] e
  show ?thesis
    by auto
qed

end
